theory Spec2Isabelle
  imports Complex_Main
begin

section \<open>Conventions of the embedding\<close>

text \<open>
  The pipeline is Python. Timestamps and durations are Python floats (or ints read from
  JSON); they are embedded as \<^typ>\<open>real\<close>, so rounding of the binary float
  arithmetic is idealised away. Dictionaries with a fixed set of keys are records,
  \<^verbatim>\<open>None\<close> is \<^term>\<open>None\<close>, project directories are maps from file names to
  entries, and the external programs and services (the codec engine, the language model)
  are parameters of the functions that call them.
\<close>

section \<open>Project directories and their files\<close>

text \<open>
  A detected silence, as \<^verbatim>\<open>detect_silences\<close> builds it: \<^verbatim>\<open>{'start': float, 'end': float | None}\<close>.
  A kept interval: \<^verbatim>\<open>{'start': float, 'end': float}\<close>.
\<close>

record silence =
  sil_start :: real
  sil_end :: "real option"

record interval =
  iv_start :: real
  iv_end :: real

text \<open>The document written to \<^verbatim>\<open>segments.json\<close> by stage 2.\<close>

record segments_doc =
  doc_segments :: "interval list"
  doc_silences :: "silence list"
  doc_original_duration :: real
  doc_threshold_db :: int
  doc_min_silence :: real
  doc_padding :: real

text \<open>A transcript segment of \<^verbatim>\<open>transcription.json\<close>: \<^verbatim>\<open>{start, end, text}\<close>.\<close>

record segment =
  seg_start :: real
  seg_end :: real
  seg_text :: string

record transcription =
  tr_text :: string
  tr_segments :: "segment list"
  tr_duration :: real

text \<open>
  A window suggested by the language model. Every key is read with
  \<^verbatim>\<open>sug.get(key, default)\<close>, so every key may be missing.
\<close>

record suggestion =
  sug_title :: "string option"
  sug_start :: "real option"
  sug_end :: "real option"

text \<open>An entry of \<^verbatim>\<open>broll_clips.json\<close>.\<close>

record clip =
  clip_path :: string
  clip_timestamp :: real
  clip_duration :: "real option"

text \<open>
  An entry of a project directory. A media file is its duration (what the probe program
  reports for it) and a number standing for its bytes. The JSON documents are the ones the
  stages exchange; the contents of subdirectories are not followed.
\<close>

datatype entry =
    Media real nat
  | Segments_json segments_doc
  | Transcription_json transcription
  | Suggestions_json "suggestion list"
  | Clips_json "clip list"
  | Other_file
  | Directory

type_synonym folder = "string \<Rightarrow> entry option"

text \<open>
  What goes wrong inside a stage body: a Python exception, kept as its message.
\<close>

datatype error = Exception string

section \<open>Stage 2: silence trim (services/step2_silence.py)\<close>











text \<open>
  \<^verbatim>\<open>get_duration\<close> parses the probe's output with \<^verbatim>\<open>float\<close>; on anything that
  is not a media file the output is empty and \<^verbatim>\<open>float\<close> raises.
\<close>

definition get_duration :: "entry \<Rightarrow> error + real" where
  "get_duration e =
     (case e of Media d b \<Rightarrow> Inr d
      | _ \<Rightarrow> Inl (Exception ''could not convert string to float''))"


section \<open>Stage 5: shorts (services/step5_shorts.py)\<close>


text \<open>\<^verbatim>\<open>OUTRO_DURATION\<close>, \<^verbatim>\<open>MAX_SHORT_TOTAL\<close>, \<^verbatim>\<open>MAX_SHORT_CONTENT\<close>.\<close>

definition OUTRO_DURATION :: real where
  "OUTRO_DURATION = 4"

definition MAX_SHORT_TOTAL :: real where
  "MAX_SHORT_TOTAL = 30"

definition MAX_SHORT_CONTENT :: real where
  "MAX_SHORT_CONTENT = MAX_SHORT_TOTAL - OUTRO_DURATION"

text \<open>
  One of the two scanning loops of \<^verbatim>\<open>snap_to_segment_boundaries\<close>:
  \<^verbatim>\<open>
    best = target; min_diff = float('inf')
    for seg in segments:
        v = seg.get(key, 0); diff = abs(v - target)
        if diff < min_diff: min_diff = diff; best = v
  \<close>
  The accumulator is the pair \<open>(best, min_diff)\<close>; \<^term>\<open>None\<close> stands for
  \<^verbatim>\<open>float('inf')\<close>. The list holds the boundary read from each segment.
\<close>

fun nearest_scan :: "real \<Rightarrow> real list \<Rightarrow> real \<times> real option \<Rightarrow> real \<times> real option" where
  "nearest_scan target [] acc = acc"
| "nearest_scan target (v # vs) (best, min_diff) =
     (let diff = \<bar>v - target\<bar> in
      if (case min_diff of None \<Rightarrow> True | Some m \<Rightarrow> diff < m)
      then nearest_scan target vs (v, Some diff)
      else nearest_scan target vs (best, min_diff))"

definition nearest_boundary :: "real \<Rightarrow> real list \<Rightarrow> real" where
  "nearest_boundary target vs = fst (nearest_scan target vs (target, None))"

definition snap_to_segment_boundaries :: "real \<Rightarrow> real \<Rightarrow> segment list \<Rightarrow> real \<times> real" where
  "snap_to_segment_boundaries start end segments =
     (if segments = [] then (start, end)
      else
        let best_start = nearest_boundary start (map seg_start segments);
            best_end = nearest_boundary end (map seg_end segments);
            best_end = (if best_end \<le> best_start then best_start + 15 else best_end)
        in (best_start, best_end))"

text \<open>
  The title of a short: \<^verbatim>\<open>sug.get('title', f'Short {i+1}')\<close>, with
  \<^verbatim>\<open>' #shorts'\<close> appended unless \<^verbatim>\<open>'#shorts' in title.lower()\<close>. Strings are
  byte strings here, and \<^verbatim>\<open>lower\<close> is the one of the ASCII letters.
\<close>

fun show_nat :: "nat \<Rightarrow> string" where
  "show_nat n =
     (if n < 10 then [char_of (48 + n)]
      else show_nat (n div 10) @ [char_of (48 + n mod 10)])"

definition lower_char :: "char \<Rightarrow> char" where
  "lower_char c =
     (let n = (of_char c :: nat) in if 65 \<le> n \<and> n \<le> 90 then char_of (n + 32) else c)"

fun starts_with :: "string \<Rightarrow> string \<Rightarrow> bool" where
  "starts_with [] s = True"
| "starts_with (p # ps) [] = False"
| "starts_with (p # ps) (c # cs) = (p = c \<and> starts_with ps cs)"

fun contains :: "string \<Rightarrow> string \<Rightarrow> bool" where
  "contains p [] = (p = [])"
| "contains p (c # cs) = (starts_with p (c # cs) \<or> contains p cs)"

definition short_title :: "nat \<Rightarrow> suggestion \<Rightarrow> string" where
  "short_title i sug =
     (let title = (case sug_title sug of None \<Rightarrow> ''Short '' @ show_nat (i + 1) | Some t \<Rightarrow> t)
      in if \<not> contains ''#shorts'' (map lower_char title) then title @ '' #shorts'' else title)"

text \<open>
  The services stage 5 calls: whether \<^verbatim>\<open>OPENROUTER_API_KEY\<close> is set, the language
  model (\<^term>\<open>None\<close> when the request fails, answers with another status or with no
  JSON list) and the codec engine rendering one short (the path of the rendered file, or
  the end of its diagnostic output).
\<close>

record services5 =
  api_key_set :: bool
  ask_model :: "transcription \<Rightarrow> nat \<Rightarrow> suggestion list option"
  render_short :: "entry \<Rightarrow> entry \<Rightarrow> segment list \<Rightarrow> string \<Rightarrow> real \<Rightarrow> real \<Rightarrow> string + string"

text \<open>
  Reading \<^verbatim>\<open>transcription.json\<close> with \<^verbatim>\<open>json.load(f).get('segments', [])\<close>: no
  segments when the file is absent, an exception when it is not a transcript.
\<close>

definition load_segments :: "folder \<Rightarrow> error + segment list" where
  "load_segments video_folder =
     (case video_folder ''transcription.json'' of
        None \<Rightarrow> Inr []
      | Some (Transcription_json t) \<Rightarrow> Inr (tr_segments t)
      | Some _ \<Rightarrow> Inl (Exception ''JSONDecodeError''))"

definition suggest_shorts :: "services5 \<Rightarrow> folder \<Rightarrow> nat \<Rightarrow> error + suggestion list" where
  "suggest_shorts svc video_folder max_shorts =
     (case video_folder ''transcription.json'' of
        None \<Rightarrow> Inr []
      | Some (Transcription_json data) \<Rightarrow>
          if tr_segments data = [] then Inr []
          else if \<not> api_key_set svc then Inr []
          else (case ask_model svc data max_shorts of
                  None \<Rightarrow> Inr []
                | Some suggestions \<Rightarrow> Inr suggestions)
      | Some _ \<Rightarrow> Inl (Exception ''JSONDecodeError''))"

record short_result =
  cs_success :: bool
  cs_error :: "string option"
  cs_output_path :: "string option"
  cs_duration :: real

definition create_short ::
  "services5 \<Rightarrow> folder \<Rightarrow> string \<Rightarrow> real \<Rightarrow> real \<Rightarrow> folder \<times> (error + short_result)" where
  "create_short svc video_folder title start end =
     (let result = \<lparr>cs_success = False, cs_error = None, cs_output_path = None,
                    cs_duration = end - start\<rparr>;
          screen = (case video_folder ''screennosilence.mp4'' of
                      Some e \<Rightarrow> Some e | None \<Rightarrow> video_folder ''screen.mp4'');
          webcam = (case video_folder ''webcamnosilence.mp4'' of
                      Some e \<Rightarrow> Some e | None \<Rightarrow> video_folder ''webcam.mp4'')
      in case screen of
        None \<Rightarrow> (video_folder, Inr (result\<lparr>cs_error := Some ''screen non trouve''\<rparr>))
      | Some screen_file \<Rightarrow>
        (case webcam of
           None \<Rightarrow> (video_folder, Inr (result\<lparr>cs_error := Some ''webcam non trouve''\<rparr>))
         | Some webcam_file \<Rightarrow>
           (case load_segments video_folder of
              Inl e \<Rightarrow> (video_folder, Inl e)
            | Inr segments \<Rightarrow>
               (let duration = end - start in
                if duration < 3 \<or> duration > MAX_SHORT_CONTENT
                then (video_folder, Inr (result\<lparr>cs_error := Some ''Duree invalide''\<rparr>))
                else
                  (let video_folder = video_folder(''shorts'' \<mapsto> Directory)
                   in case render_short svc screen_file webcam_file segments title start end of
                        Inl stderr \<Rightarrow>
                          (video_folder, Inr (result\<lparr>cs_error := Some stderr\<rparr>))
                      | Inr output_path \<Rightarrow>
                          (video_folder,
                           Inr (result\<lparr>cs_success := True,
                                  cs_output_path := Some output_path\<rparr>)))))))"

text \<open>An element of the \<^verbatim>\<open>shorts\<close> list that \<^verbatim>\<open>generate_shorts\<close> returns.\<close>

record short =
  sh_title :: string
  sh_start :: real
  sh_end :: real
  sh_path :: "string option"
  sh_duration :: real

record shorts_result =
  gs_success :: bool
  gs_error :: "string option"
  gs_shorts :: "short list"

text \<open>
  The window of one suggestion, as the loop of \<^verbatim>\<open>generate_shorts\<close> passes it to
  \<^verbatim>\<open>create_short\<close>: \<^verbatim>\<open>sug.get('start', 0)\<close>, \<^verbatim>\<open>sug.get('end', 30)\<close>, snapped when
  the transcript has segments.
\<close>

definition window_of :: "segment list \<Rightarrow> suggestion \<Rightarrow> real \<times> real" where
  "window_of segments sug =
     (let start = (case sug_start sug of None \<Rightarrow> 0 | Some v \<Rightarrow> v);
          end = (case sug_end sug of None \<Rightarrow> 30 | Some v \<Rightarrow> v)
      in if segments \<noteq> [] then snap_to_segment_boundaries start end segments
         else (start, end))"

text \<open>
  The loop \<^verbatim>\<open>for i, sug in enumerate(suggestions)\<close>, with the directory and the list
  of shorts as its state; an exception of \<^verbatim>\<open>create_short\<close> ends it.
\<close>

fun shorts_loop ::
  "services5 \<Rightarrow> segment list \<Rightarrow> nat \<Rightarrow> suggestion list \<Rightarrow> folder \<times> short list \<Rightarrow>
     folder \<times> (error + short list)" where
  "shorts_loop svc segments i [] (video_folder, shorts) = (video_folder, Inr shorts)"
| "shorts_loop svc segments i (sug # sugs) (video_folder, shorts) =
     (let title = short_title i sug;
          (start, end) = window_of segments sug
      in case create_short svc video_folder title start end of
           (video_folder, Inl e) \<Rightarrow> (video_folder, Inl e)
         | (video_folder, Inr short_result) \<Rightarrow>
             shorts_loop svc segments (i + 1) sugs
               (video_folder,
                if cs_success short_result
                then shorts @ [\<lparr>sh_title = title, sh_start = start, sh_end = end,
                                sh_path = cs_output_path short_result,
                                sh_duration = cs_duration short_result\<rparr>]
                else shorts))"

definition generate_shorts ::
  "services5 \<Rightarrow> folder \<Rightarrow> nat \<Rightarrow> folder \<times> (error + shorts_result)" where
  "generate_shorts svc video_folder max_shorts =
     (case suggest_shorts svc video_folder max_shorts of
        Inl e \<Rightarrow> (video_folder, Inl e)
      | Inr suggestions \<Rightarrow>
          if suggestions = []
          then (video_folder, Inr \<lparr>gs_success = True, gs_error = None, gs_shorts = []\<rparr>)
          else
            (let video_folder =
                   video_folder(''shorts_suggestions.json'' \<mapsto> Suggestions_json suggestions)
             in case load_segments video_folder of
                  Inl e \<Rightarrow> (video_folder, Inl e)
                | Inr segments \<Rightarrow>
                   (case shorts_loop svc segments 0 suggestions (video_folder, []) of
                      (video_folder, Inl e) \<Rightarrow> (video_folder, Inl e)
                    | (video_folder, Inr shorts) \<Rightarrow>
                        (video_folder,
                         Inr \<lparr>gs_success = True, gs_error = None, gs_shorts = shorts\<rparr>))))"

section \<open>Stage 7: B-roll integration (services/step7_integrate_broll.py)\<close>

text \<open>
  The codec engine as stage 7 sees it: whether the file of a clip exists, the duration of
  the prepared copy of a clip cut to a given length (\<^term>\<open>None\<close> when no prepared file
  appears), and the final overlay encoding.
\<close>

record engine7 =
  clip_exists :: "string \<Rightarrow> bool"
  prepare_clip :: "clip \<Rightarrow> real \<Rightarrow> real option"
  overlay_encode :: "entry \<Rightarrow> (real \<times> real) list \<Rightarrow> string + entry"

record broll_result =
  ib_success :: bool
  ib_error :: "string option"
  ib_output_path :: "string option"
  ib_clips_used :: nat

text \<open>The loop that filters and prepares the clips; it yields \<open>(timestamp, duration)\<close> pairs.\<close>

fun prepare_loop :: "engine7 \<Rightarrow> real \<Rightarrow> real \<Rightarrow> clip list \<Rightarrow> (real \<times> real) list" where
  "prepare_loop eng broll_duration video_duration [] = []"
| "prepare_loop eng broll_duration video_duration (c # cs) =
     (let rest = prepare_loop eng broll_duration video_duration cs in
      if \<not> clip_exists eng (clip_path c) then rest
      else
        (let timestamp = clip_timestamp c;
             duration = min broll_duration
                          (case clip_duration c of None \<Rightarrow> broll_duration | Some d \<Rightarrow> d)
         in if timestamp < 0 \<or> timestamp \<ge> video_duration then rest
            else
              (let duration = (if timestamp + duration > video_duration
                               then video_duration - timestamp else duration)
               in case prepare_clip eng c duration of
                    None \<Rightarrow> rest
                  | Some actual_duration \<Rightarrow> (timestamp, actual_duration) # rest)))"

definition integrate_broll ::
  "engine7 \<Rightarrow> folder \<Rightarrow> real \<Rightarrow> folder \<times> (error + broll_result)" where
  "integrate_broll eng video_folder broll_duration =
     (let result = \<lparr>ib_success = False, ib_error = None, ib_output_path = None,
                    ib_clips_used = 0\<rparr>
      in case video_folder ''nosilence.mp4'' of
        None \<Rightarrow> (video_folder, Inr (result\<lparr>ib_error := Some ''nosilence.mp4 manquant''\<rparr>))
      | Some input \<Rightarrow>
        (case (case video_folder ''broll_clips.json'' of
                 None \<Rightarrow> Inr []
               | Some (Clips_json cs) \<Rightarrow> Inr cs
               | Some _ \<Rightarrow> Inl (Exception ''JSONDecodeError'')) of
           Inl e \<Rightarrow> (video_folder, Inl e)
         | Inr clips \<Rightarrow>
            if clips = []
            then (if input = Directory
                  then (video_folder, Inl (Exception ''IsADirectoryError''))
                  else (video_folder(''illustrated.mp4'' \<mapsto> input),
                        Inr (result\<lparr>ib_success := True,
                               ib_output_path := Some ''illustrated.mp4'',
                               ib_clips_used := 0\<rparr>)))
            else
              (let video_folder = video_folder(''temp_broll'' \<mapsto> Directory)
               in case get_duration input of
                    Inl e \<Rightarrow> (video_folder, Inl e)
                  | Inr video_duration \<Rightarrow>
                     (let prepared_clips =
                            prepare_loop eng broll_duration video_duration clips
                      in if prepared_clips = []
                         then (video_folder(''temp_broll'' := None),
                               Inr (result\<lparr>ib_error := Some ''Aucun clip valide prepare''\<rparr>))
                         else
                           (let prepared_clips = sort_key fst prepared_clips;
                                video_folder = video_folder(''temp_broll'' := None)
                            in case overlay_encode eng input prepared_clips of
                                 Inl stderr \<Rightarrow>
                                   (video_folder, Inr (result\<lparr>ib_error := Some stderr\<rparr>))
                               | Inr output \<Rightarrow>
                                   (let video_folder =
                                          video_folder(''illustrated.mp4'' \<mapsto> output)
                                    in case get_duration output of
                                         Inl e \<Rightarrow> (video_folder, Inl e)
                                       | Inr final_duration \<Rightarrow>
                                           (video_folder,
                                            Inr (result\<lparr>ib_success := True,
                                              ib_output_path := Some ''illustrated.mp4'',
                                              ib_clips_used := length prepared_clips\<rparr>))))))))"

section \<open>Project registry (services/database.py)\<close>

text \<open>
  A task handle is the identifier the broker gives to a submission (a UUID string in the
  source; a fresh number here).
\<close>

type_synonym handle = nat

text \<open>
  The project document, with the fields the pipeline reads and writes. The name, the
  compositing configuration and the time stamps are left out.
\<close>

record project =
  p_folder_name :: string
  p_status :: string
  p_current_step :: "int option"
  p_step_name :: "string option"
  p_progress :: int
  p_error :: "string option"
  p_steps :: "string \<Rightarrow> string option"
  p_outputs :: "string \<Rightarrow> string option"
  p_celery_task_id :: "handle option"

text \<open>The collection of projects, keyed by identifier, and whether the store is reachable.\<close>

record database =
  db_connected :: bool
  db_projects :: "(string \<times> project) list"

definition is_connected :: "database \<Rightarrow> bool" where
  "is_connected db = db_connected db"

definition get_project :: "database \<Rightarrow> string \<Rightarrow> project option" where
  "get_project db project_id =
     (if \<not> is_connected db then None else map_of (db_projects db) project_id)"

definition get_project_by_folder :: "database \<Rightarrow> string \<Rightarrow> (string \<times> project) option" where
  "get_project_by_folder db folder_name =
     (if \<not> is_connected db then None
      else find (\<lambda>(i, p). p_folder_name p = folder_name) (db_projects db))"

text \<open>\<^verbatim>\<open>update_one({"_id": id}, {"$set": updates})\<close>: the first matching document is changed.\<close>

fun update_one ::
  "string \<Rightarrow> (project \<Rightarrow> project) \<Rightarrow> (string \<times> project) list \<Rightarrow> (string \<times> project) list" where
  "update_one project_id updates [] = []"
| "update_one project_id updates ((i, p) # ps) =
     (if i = project_id then (i, updates p) # ps
      else (i, p) # update_one project_id updates ps)"

definition update_project :: "database \<Rightarrow> string \<Rightarrow> (project \<Rightarrow> project) \<Rightarrow> database" where
  "update_project db project_id updates =
     (if \<not> is_connected db then db
      else db\<lparr>db_projects := update_one project_id updates (db_projects db)\<rparr>)"

section \<open>Worker tasks (tasks.py)\<close>

definition TOTAL_STEPS :: int where
  "TOTAL_STEPS = 12"

fun show_int :: "int \<Rightarrow> string" where
  "show_int i = (if i < 0 then CHR ''-'' # show_nat (nat (- i)) else show_nat (nat i))"

text \<open>\<^verbatim>\<open>STEP_NAMES.get(step, f"Etape {step}")\<close>, the accents of the source left out.\<close>

definition STEP_NAMES :: "int \<Rightarrow> string" where
  "STEP_NAMES step =
     (if step = 0 then ''Conversion 60fps''
      else if step = 1 then ''Fusion videos''
      else if step = 2 then ''Suppression silences''
      else if step = 3 then ''Decoupe sources''
      else if step = 4 then ''Transcription''
      else if step = 5 then ''Generation shorts''
      else if step = 6 then ''Telechargement B-roll''
      else if step = 7 then ''Integration B-roll''
      else if step = 8 then ''Generation SEO''
      else if step = 9 then ''Generation miniature''
      else if step = 10 then ''Programmation YouTube''
      else if step = 11 then ''Upload YouTube''
      else ''Etape '' @ show_int step)"

text \<open>\<^verbatim>\<open>Path(video_folder).name\<close>: what follows the last slash.\<close>

definition path_name :: "string \<Rightarrow> string" where
  "path_name p = rev (takeWhile (\<lambda>c. c \<noteq> CHR ''/'') (rev p))"

text \<open>Python's \<^verbatim>\<open>int\<close> of a float truncates towards zero.\<close>

definition py_int :: "real \<Rightarrow> int" where
  "py_int x = (if 0 \<le> x then \<lfloor>x\<rfloor> else \<lceil>x\<rceil>)"

text \<open>
  \<^verbatim>\<open>update_project_status\<close>: the dictionary \<^verbatim>\<open>update_data\<close> it builds, as the
  fields it sets, and the function. Nothing is written when the project is not found, and
  every exception is swallowed.
\<close>

definition update_data :: "int \<Rightarrow> string \<Rightarrow> string option \<Rightarrow> project \<Rightarrow> project" where
  "update_data step status error p =
     p\<lparr>p_status := status,
       p_current_step := Some step,
       p_step_name := Some (STEP_NAMES step),
       p_progress :=
         (if status = ''completed'' then 100
          else py_int ((real_of_int step / real_of_int TOTAL_STEPS) * 100)),
       p_error := (case error of
                     None \<Rightarrow> p_error p
                   | Some e \<Rightarrow> if e \<noteq> [] then Some e else p_error p)\<rparr>"

definition update_project_status ::
  "database \<Rightarrow> string \<Rightarrow> int \<Rightarrow> string \<Rightarrow> string option \<Rightarrow> database" where
  "update_project_status db video_folder step status error =
     (let folder_name = path_name video_folder in
      case get_project_by_folder db folder_name of
        None \<Rightarrow> db
      | Some (project_id, project) \<Rightarrow>
          update_project db project_id (update_data step status error))"

text \<open>
  What a task works on: the registry and the project directory its argument names. The
  value passed along a chain is \<^verbatim>\<open>{'success', 'step', 'video_folder'}\<close>.
\<close>

record state =
  st_db :: database
  st_dir :: folder

record continuation =
  cont_success :: bool
  cont_step :: int
  cont_video_folder :: string

text \<open>
  The common end of the tasks of stages 1 to 9:
  \<^verbatim>\<open>
    try:
        result = body(video_folder)
        if result.get('success'): return {'success': True, 'step': k, ...}
        else: raise Exception(result.get('error', 'Erreur inconnue'))
    except Exception as e:
        update_project_status(video_folder, k, "error", str(e)); raise
  \<close>
  Every result dictionary has the key \<^verbatim>\<open>error\<close>, so the default is never taken.
\<close>

definition stage_outcome ::
  "database \<Rightarrow> string \<Rightarrow> int \<Rightarrow> error + bool \<times> string option \<Rightarrow>
     database \<times> (error + continuation)" where
  "stage_outcome db video_folder k r =
     (case r of
        Inr (True, err) \<Rightarrow>
          (db, Inr \<lparr>cont_success = True, cont_step = k, cont_video_folder = video_folder\<rparr>)
      | Inr (False, err) \<Rightarrow>
          (let msg = (case err of None \<Rightarrow> ''None'' | Some e \<Rightarrow> e)
           in (update_project_status db video_folder k ''error'' (Some msg),
               Inl (Exception msg)))
      | Inl (Exception msg) \<Rightarrow>
          (update_project_status db video_folder k ''error'' (Some msg),
           Inl (Exception msg)))"


definition task_step5_shorts ::
  "services5 \<Rightarrow> handle \<Rightarrow> continuation \<Rightarrow> state \<Rightarrow> state \<times> (error + continuation)" where
  "task_step5_shorts svc self previous_result st =
     (let video_folder = cont_video_folder previous_result;
          db = update_project_status (st_db st) video_folder 5 ''processing'' None;
          (dir, result) = generate_shorts svc (st_dir st) 3;
          (db, out) = stage_outcome db video_folder 5
                        (map_sum id (\<lambda>r. (gs_success r, gs_error r)) result)
      in (\<lparr>st_db = db, st_dir = dir\<rparr>, out))"

definition task_step7_integrate_broll ::
  "engine7 \<Rightarrow> handle \<Rightarrow> continuation \<Rightarrow> state \<Rightarrow> state \<times> (error + continuation)" where
  "task_step7_integrate_broll eng self previous_result st =
     (let video_folder = cont_video_folder previous_result;
          db = update_project_status (st_db st) video_folder 7 ''processing'' None;
          (dir, result) = integrate_broll eng (st_dir st) 3;
          (db, out) = stage_outcome db video_folder 7
                        (map_sum id (\<lambda>r. (ib_success r, ib_error r)) result)
      in (\<lparr>st_db = db, st_dir = dir\<rparr>, out))"

text \<open>
  Stage 10. \<^verbatim>\<open>prepare_schedule\<close> and the mirroring into the blob store are parameters:
  the first returns the directory with the schedule (as text) or raises, the second
  returns the manifest of mirrored files, and its exception is caught (\<^term>\<open>None\<close>).
\<close>

record services10 =
  prepare_schedule :: "folder \<Rightarrow> folder \<times> (error + string)"
  upload_project_folder :: "folder \<Rightarrow> string option"

definition task_step10_schedule ::
  "services10 \<Rightarrow> handle \<Rightarrow> continuation \<Rightarrow> state \<Rightarrow> state \<times> (error + continuation)" where
  "task_step10_schedule svc self previous_result st =
     (let video_folder = cont_video_folder previous_result;
          db = update_project_status (st_db st) video_folder 10 ''processing'' None
      in case prepare_schedule svc (st_dir st) of
           (dir, Inl (Exception msg)) \<Rightarrow>
             (\<lparr>st_db = update_project_status db video_folder 10 ''error'' (Some msg),
               st_dir = dir\<rparr>, Inl (Exception msg))
         | (dir, Inr result) \<Rightarrow>
             (let folder_name = path_name video_folder;
                  project = get_project_by_folder db folder_name;
                  minio_files = (case upload_project_folder svc dir of
                                   None \<Rightarrow> ''{}'' | Some files \<Rightarrow> files);
                  db = (case project of
                          None \<Rightarrow> db
                        | Some (project_id, project) \<Rightarrow>
                            update_project db project_id
                              (\<lambda>p. p\<lparr>p_outputs := (p_outputs project)
                                         (''schedule'' \<mapsto> result, ''minio'' \<mapsto> minio_files),
                                     p_status := ''ready_to_upload'',
                                     p_progress := 90,
                                     p_current_step := Some 10,
                                     p_step_name := Some ''Pret pour upload YouTube''\<rparr>))
              in (\<lparr>st_db = db, st_dir = dir\<rparr>,
                  Inr \<lparr>cont_success = True, cont_step = 10,
                       cont_video_folder = video_folder\<rparr>)))"

section \<open>The broker and the pipelines (tasks.py, main.py)\<close>

text \<open>
  What can be submitted: a chain of stage tasks on a project directory (a single task is a
  chain of one), or one of the two tasks that build and submit a chain when a worker runs
  them.
\<close>

datatype job =
    Stages "int list" string
  | Partial_pipeline string int int
  | Full_pipeline string

record broker =
  br_available :: bool
  br_next_id :: handle
  br_queue :: "(handle \<times> job) list"
  br_revoked :: "handle list"

text \<open>
  \<^verbatim>\<open>apply_async\<close> / \<^verbatim>\<open>delay\<close> and \<^verbatim>\<open>control.revoke\<close>; both raise when the broker
  cannot be reached.
\<close>

definition apply_async :: "broker \<Rightarrow> job \<Rightarrow> error + broker \<times> handle" where
  "apply_async b j =
     (if \<not> br_available b then Inl (Exception ''OperationalError'')
      else Inr (b\<lparr>br_next_id := br_next_id b + 1,
                  br_queue := br_queue b @ [(br_next_id b, j)]\<rparr>, br_next_id b))"

definition revoke :: "broker \<Rightarrow> handle \<Rightarrow> error + broker" where
  "revoke b h =
     (if \<not> br_available b then Inl (Exception ''OperationalError'')
      else Inr (b\<lparr>br_revoked := h # br_revoked b\<rparr>))"

text \<open>The body of \<^verbatim>\<open>process_full_pipeline\<close>: the chain of stages 1 to 10.\<close>

definition process_full_pipeline :: "broker \<Rightarrow> string \<Rightarrow> error + broker \<times> handle" where
  "process_full_pipeline b video_folder =
     apply_async b (Stages [1, 2, 3, 4, 5, 6, 7, 8, 9, 10] video_folder)"

text \<open>
  The body of \<^verbatim>\<open>process_partial_pipeline\<close>. The table \<^verbatim>\<open>steps\<close> has the keys 1 to
  11; \<^verbatim>\<open>steps[start_step]\<close> raises for another key. When no stage is selected the task
  returns an error dictionary and submits nothing (\<^term>\<open>None\<close>).
\<close>

definition process_partial_pipeline ::
  "broker \<Rightarrow> string \<Rightarrow> int \<Rightarrow> int \<Rightarrow> error + broker \<times> handle option" where
  "process_partial_pipeline b video_folder start_step end_step =
     (let selected_steps = filter (\<lambda>i. 1 \<le> i \<and> i \<le> 11) [start_step..end_step] in
      if selected_steps = [] then Inr (b, None)
      else if \<not> (1 \<le> start_step \<and> start_step \<le> 11) then Inl (Exception ''KeyError'')
      else
        (case apply_async b (Stages (start_step # tl selected_steps) video_folder) of
           Inl e \<Rightarrow> Inl e
         | Inr (b, pipeline_id) \<Rightarrow> Inr (b, Some pipeline_id)))"

text \<open>
  The chains that \<^verbatim>\<open>main.py\<close> submits when a project is created with automatic
  processing: from raw recordings, and from a composited recording.
\<close>

definition create_project_chain :: "int list" where
  "create_project_chain = [0, 1, 2, 3, 4, 5, 6, 7, 8, 9, 10]"

definition create_composite_chain :: "int list" where
  "create_composite_chain = [1, 2, 3, 4, 5, 6, 7, 8, 9, 10]"

text \<open>A worker running a submitted pipeline task.\<close>

definition run_job :: "broker \<Rightarrow> job \<Rightarrow> error + broker \<times> handle option" where
  "run_job b j =
     (case j of
        Partial_pipeline video_folder start_step end_step \<Rightarrow>
          process_partial_pipeline b video_folder start_step end_step
      | Full_pipeline video_folder \<Rightarrow>
          (case process_full_pipeline b video_folder of
             Inl e \<Rightarrow> Inl e | Inr (b, h) \<Rightarrow> Inr (b, Some h))
      | Stages steps video_folder \<Rightarrow> Inr (b, None))"

section \<open>Controller actions (routers/projects.py)\<close>

datatype http_error = HTTPException nat

text \<open>
  What the controller acts on: the registry, the broker, and the directories under
  \<^verbatim>\<open>output/\<close>, by folder name.
\<close>

record app =
  app_db :: database
  app_broker :: broker
  app_output :: "string \<Rightarrow> folder option"

definition files_to_keep :: "string list" where
  "files_to_keep = [''config.json'', ''screen.mp4'', ''webcam.mp4'']"

record reboot_response =
  rb_task_revoked :: bool
  rb_files_deleted :: "string set"
  rb_new_task_id :: handle

text \<open>
  \<^verbatim>\<open>reboot_project\<close>, in the four numbered steps of the source.
  Step 1 revokes the recorded handle; an exception of the broker is caught.
\<close>

definition reboot_revoke :: "app \<Rightarrow> project \<Rightarrow> app \<times> bool" where
  "reboot_revoke a project =
     (case p_celery_task_id project of
        None \<Rightarrow> (a, False)
      | Some celery_task_id \<Rightarrow>
          (case revoke (app_broker a) celery_task_id of
             Inl e \<Rightarrow> (a, False)
           | Inr b \<Rightarrow> (a\<lparr>app_broker := b\<rparr>, True)))"

text \<open>
  Step 2 removes every entry of the directory whose name is not kept. The removal of an
  entry can raise; the exception is caught and the entry stays. Which removals raise is
  the parameter \<open>undeletable\<close>.
\<close>

definition reboot_clean :: "(string \<Rightarrow> bool) \<Rightarrow> app \<Rightarrow> string \<Rightarrow> app \<times> string set" where
  "reboot_clean undeletable a folder_name =
     (case app_output a folder_name of
        None \<Rightarrow> (a, {})
      | Some output_dir \<Rightarrow>
          (a\<lparr>app_output := (app_output a)(folder_name \<mapsto>
               (\<lambda>name. if name \<in> set files_to_keep \<or> undeletable name
                        then output_dir name else None))\<rparr>,
           {name. output_dir name \<noteq> None \<and> name \<notin> set files_to_keep
                  \<and> \<not> undeletable name}))"

text \<open>Step 3 resets the project document.\<close>

definition reboot_reset :: "app \<Rightarrow> string \<Rightarrow> app" where
  "reboot_reset a project_id =
     a\<lparr>app_db := update_project (app_db a) project_id
         (\<lambda>p. p\<lparr>p_status := ''created'', p_current_step := None, p_step_name := None,
                p_progress := 0, p_celery_task_id := None, p_steps := Map.empty\<rparr>)\<rparr>"

text \<open>
  Step 4 submits \<^verbatim>\<open>process_partial_pipeline.delay(video_folder_path, 1, 12)\<close> and
  records its handle.
\<close>

definition reboot_relaunch :: "app \<Rightarrow> string \<Rightarrow> string \<Rightarrow> app \<times> (http_error + handle)" where
  "reboot_relaunch a project_id folder_name =
     (let video_folder_path = ''output/'' @ folder_name in
      case apply_async (app_broker a) (Partial_pipeline video_folder_path 1 12) of
        Inl e \<Rightarrow> (a, Inl (HTTPException 500))
      | Inr (b, task_id) \<Rightarrow>
          (a\<lparr>app_broker := b,
             app_db := update_project (app_db a) project_id
               (\<lambda>p. p\<lparr>p_celery_task_id := Some task_id, p_status := ''processing''\<rparr>)\<rparr>,
           Inr task_id))"

definition reboot_project ::
  "(string \<Rightarrow> bool) \<Rightarrow> app \<Rightarrow> string \<Rightarrow> app \<times> (http_error + reboot_response)" where
  "reboot_project undeletable a project_id =
     (if \<not> is_connected (app_db a) then (a, Inl (HTTPException 503))
      else case get_project (app_db a) project_id of
        None \<Rightarrow> (a, Inl (HTTPException 404))
      | Some project \<Rightarrow>
          (let folder_name = p_folder_name project;
               (a, task_revoked) = reboot_revoke a project;
               (a, files_deleted) = reboot_clean undeletable a folder_name;
               a = reboot_reset a project_id
           in case reboot_relaunch a project_id folder_name of
                (a, Inl e) \<Rightarrow> (a, Inl e)
              | (a, Inr task_id) \<Rightarrow>
                  (a, Inr \<lparr>rb_task_revoked = task_revoked,
                          rb_files_deleted = files_deleted,
                          rb_new_task_id = task_id\<rparr>)))"

text \<open>\<^verbatim>\<open>start_youtube_upload\<close>, the manual publication trigger.\<close>

definition start_youtube_upload :: "app \<Rightarrow> string \<Rightarrow> app \<times> (http_error + handle)" where
  "start_youtube_upload a project_id =
     (if \<not> is_connected (app_db a) then (a, Inl (HTTPException 503))
      else case get_project (app_db a) project_id of
        None \<Rightarrow> (a, Inl (HTTPException 404))
      | Some project \<Rightarrow>
          if p_status project \<notin> set [''ready_to_upload'', ''completed'', ''failed'']
          then (a, Inl (HTTPException 400))
          else
            (let video_folder_path = ''output/'' @ p_folder_name project in
             case apply_async (app_broker a) (Stages [11] video_folder_path) of
               Inl e \<Rightarrow> (a, Inl (HTTPException 500))
             | Inr (b, task_id) \<Rightarrow>
                 (a\<lparr>app_broker := b,
                    app_db := update_project (app_db a) project_id
                      (\<lambda>p. p\<lparr>p_celery_task_id := Some task_id,
                             p_status := ''processing'',
                             p_current_step := Some 11,
                             p_step_name := Some ''Upload YouTube en cours...''\<rparr>)\<rparr>,
                  Inr task_id)))"

section \<open>Predicates used to state the properties\<close>

text \<open>
  A window as the spec wants it recorded in \<^verbatim>\<open>shorts_suggestions.json\<close>: the duration
  within 3 and 26 seconds, the start the start of a transcript segment and the end the end
  of one.
\<close>

definition recorded_window_ok :: "segment list \<Rightarrow> suggestion \<Rightarrow> bool" where
  "recorded_window_ok segments sug =
     (case (sug_start sug, sug_end sug) of
        (Some s, Some e) \<Rightarrow>
          3 \<le> e - s \<and> e - s \<le> 26
          \<and> s \<in> seg_start ` set segments \<and> e \<in> seg_end ` set segments
      | _ \<Rightarrow> False)"

text \<open>
  A returned short comes from one of the suggestions, through \<^const>\<open>window_of\<close>, and
  its duration passed the check of \<^const>\<open>create_short\<close>.
\<close>

definition accepted_window :: "segment list \<Rightarrow> suggestion list \<Rightarrow> short \<Rightarrow> bool" where
  "accepted_window segs sugs sh =
     (\<exists>sug \<in> set sugs. (sh_start sh, sh_end sh) = window_of segs sug
        \<and> 3 \<le> sh_end sh - sh_start sh \<and> sh_end sh - sh_start sh \<le> 26)"









section \<open>Example inputs\<close>

text \<open>
  A transcript with the segments (7.12, 10) and (10, 31.05), a project directory holding
  it with the two sources, and services whose language model proposes the window
  (7.3, 45.8) and whose renderer succeeds.
\<close>

definition demo_transcript :: transcription where
  "demo_transcript =
     \<lparr>tr_text = ''ab'',
      tr_segments = [\<lparr>seg_start = 178 / 25, seg_end = 10, seg_text = ''a''\<rparr>,
                     \<lparr>seg_start = 10, seg_end = 621 / 20, seg_text = ''b''\<rparr>],
      tr_duration = 40\<rparr>"

definition demo_suggestion :: suggestion where
  "demo_suggestion =
     \<lparr>sug_title = Some ''demo'', sug_start = Some (73 / 10), sug_end = Some (229 / 5)\<rparr>"

definition demo_folder :: folder where
  "demo_folder =
     (\<lambda>name. None)(''transcription.json'' \<mapsto> Transcription_json demo_transcript,
        ''screen.mp4'' \<mapsto> Media 40 1, ''webcam.mp4'' \<mapsto> Media 40 2)"

definition demo_services :: services5 where
  "demo_services =
     \<lparr>api_key_set = True,
      ask_model = (\<lambda>data n. Some [demo_suggestion]),
      render_short = (\<lambda>screen webcam segments title start end. Inr ''short_demo.mp4'')\<rparr>"

text \<open>A transcript with the segments (0, 5) and (5, 10).\<close>

definition two_segments :: "segment list" where
  "two_segments = [\<lparr>seg_start = 0, seg_end = 5, seg_text = ''a''\<rparr>,
                   \<lparr>seg_start = 5, seg_end = 10, seg_text = ''b''\<rparr>]"

text \<open>
  A registered project that was stopped during stage 4 and still records the handle 8, an
  application state holding it with a directory of five entries, and the same project seen
  from a worker, with \<^verbatim>\<open>original.mp4\<close> present.
\<close>

definition demo_project :: project where
  "demo_project =
     \<lparr>p_folder_name = ''video_1'', p_status = ''stopped'', p_current_step = Some 4,
      p_step_name = Some ''Transcription'', p_progress = 33, p_error = None,
      p_steps = (\<lambda>n. None)(''merge'' \<mapsto> ''completed''), p_outputs = (\<lambda>n. None),
      p_celery_task_id = Some 8\<rparr>"

definition demo_app :: app where
  "demo_app =
     \<lparr>app_db = \<lparr>db_connected = True, db_projects = [(''p1'', demo_project)]\<rparr>,
      app_broker = \<lparr>br_available = True, br_next_id = 9, br_queue = [], br_revoked = []\<rparr>,
      app_output = (\<lambda>n. None)(''video_1'' \<mapsto>
         (\<lambda>n. None)(''config.json'' \<mapsto> Other_file, ''screen.mp4'' \<mapsto> Media 40 1,
            ''webcam.mp4'' \<mapsto> Media 40 2, ''original.mp4'' \<mapsto> Media 40 3,
            ''shorts'' \<mapsto> Directory))\<rparr>"


definition demo_state :: state where
  "demo_state =
     \<lparr>st_db = \<lparr>db_connected = True, db_projects = [(''p1'', demo_project)]\<rparr>,
      st_dir = (\<lambda>n. None)(''config.json'' \<mapsto> Other_file, ''screen.mp4'' \<mapsto> Media 40 1,
            ''webcam.mp4'' \<mapsto> Media 40 2, ''original.mp4'' \<mapsto> Media 40 3)\<rparr>"

definition demo_continuation :: continuation where
  "demo_continuation =
     \<lparr>cont_success = True, cont_step = 1, cont_video_folder = ''output/video_1''\<rparr>"

text \<open>An engine for stage 7 that is never needed when there is no clip.\<close>

definition demo_engine7 :: engine7 where
  "demo_engine7 =
     \<lparr>clip_exists = (\<lambda>path. False),
      prepare_clip = (\<lambda>c duration. None),
      overlay_encode = (\<lambda>input clips. Inl ''not used'')\<rparr>"

text \<open>Services for stage 10 that write a schedule and cannot reach the blob store.\<close>

definition demo_services10 :: services10 where
  "demo_services10 =
     \<lparr>prepare_schedule = (\<lambda>dir. (dir(''schedule.json'' \<mapsto> Other_file), Inr ''schedule'')),
      upload_project_folder = (\<lambda>dir. None)\<rparr>"

section \<open>Properties of the snapping\<close>

lemma nearest_scan_some:
  "nearest_scan t vs (b, Some m) = (b', md) \<Longrightarrow>
     \<exists>m'. md = Some m' \<and> m' \<le> m \<and> (\<forall>w \<in> set vs. m' \<le> \<bar>w - t\<bar>) \<and>
          ((b' = b \<and> m' = m) \<or> (b' \<in> set vs \<and> m' = \<bar>b' - t\<bar>))"
proof (induction vs arbitrary: b m)
  case Nil
  then show ?case by simp
next
  case (Cons v vs)
  show ?case
  proof (cases "\<bar>v - t\<bar> < m")
    case True
    with Cons.prems have "nearest_scan t vs (v, Some \<bar>v - t\<bar>) = (b', md)"
      by simp
    from Cons.IH [OF this] True show ?thesis
      by auto
  next
    case False
    with Cons.prems have "nearest_scan t vs (b, Some m) = (b', md)"
      by simp
    from Cons.IH [OF this] False show ?thesis
      by auto
  qed
qed

lemma nearest_boundary_minimal:
  assumes "vs \<noteq> []"
  shows "nearest_boundary t vs \<in> set vs \<and>
         (\<forall>w \<in> set vs. \<bar>nearest_boundary t vs - t\<bar> \<le> \<bar>w - t\<bar>)"
proof -
  from assms obtain v ws where vs: "vs = v # ws"
    by (cases vs) auto
  obtain b' md where r: "nearest_scan t ws (v, Some \<bar>v - t\<bar>) = (b', md)"
    by (cases "nearest_scan t ws (v, Some \<bar>v - t\<bar>)") auto
  from nearest_scan_some [OF r]
  have "b' \<in> set vs \<and> (\<forall>w \<in> set vs. \<bar>b' - t\<bar> \<le> \<bar>w - t\<bar>)"
    unfolding vs by auto
  moreover have "nearest_boundary t vs = b'"
    by (simp add: nearest_boundary_def vs r)
  ultimately show ?thesis by simp
qed

lemma snap_fst:
  "segments \<noteq> [] \<Longrightarrow>
   fst (snap_to_segment_boundaries start end segments) =
     nearest_boundary start (map seg_start segments)"
  by (simp add: snap_to_segment_boundaries_def Let_def)

lemma snap_snd:
  "segments \<noteq> [] \<Longrightarrow>
   snd (snap_to_segment_boundaries start end segments) =
     (if nearest_boundary end (map seg_end segments)
           \<le> nearest_boundary start (map seg_start segments)
      then nearest_boundary start (map seg_start segments) + 15
      else nearest_boundary end (map seg_end segments))"
  by (simp add: snap_to_segment_boundaries_def Let_def)

text \<open>
  Claim C10, as amended. For a transcript with at least one segment,
  \<^verbatim>\<open>snap_to_segment_boundaries\<close> returns a pair whose end is strictly after its start.
  When the segment end nearest to the requested end is not after the segment start nearest
  to the requested start, the returned end is the returned start plus 15 seconds, and it
  differs from that nearest segment end; otherwise the returned end is the nearest segment
  end. Nothing is said about the forced end not being a boundary: it is one whenever some
  segment ends 15 seconds after the chosen start.
\<close>

theorem snap_end_after_start:
  assumes "segments \<noteq> []"
  shows "fst (snap_to_segment_boundaries start end segments)
           < snd (snap_to_segment_boundaries start end segments)
         \<and> (nearest_boundary end (map seg_end segments)
               \<le> nearest_boundary start (map seg_start segments)
             \<longrightarrow> snd (snap_to_segment_boundaries start end segments)
                   = fst (snap_to_segment_boundaries start end segments) + 15
                 \<and> snd (snap_to_segment_boundaries start end segments)
                   \<noteq> nearest_boundary end (map seg_end segments))
         \<and> (nearest_boundary start (map seg_start segments)
               < nearest_boundary end (map seg_end segments)
             \<longrightarrow> snd (snap_to_segment_boundaries start end segments)
                   = nearest_boundary end (map seg_end segments))"
  using assms by (simp add: snap_fst snap_snd)

text \<open>
  The theorem at two inputs: one where the nearest end (5) is after the nearest start (0),
  and one where the only segment is empty, so that the end is forced to 7 + 15.
\<close>

theorem snap_end_after_start_witness:
  "[\<lparr>seg_start = 0, seg_end = 5, seg_text = ''a''\<rparr>] \<noteq> []
   \<and> nearest_boundary 4 (map seg_start [\<lparr>seg_start = 0, seg_end = 5, seg_text = ''a''\<rparr>])
       < nearest_boundary 1 (map seg_end [\<lparr>seg_start = 0, seg_end = 5, seg_text = ''a''\<rparr>])
   \<and> snap_to_segment_boundaries 4 1 [\<lparr>seg_start = 0, seg_end = 5, seg_text = ''a''\<rparr>] = (0, 5)
   \<and> [\<lparr>seg_start = 7, seg_end = 7, seg_text = ''a''\<rparr>] \<noteq> []
   \<and> nearest_boundary 7 (map seg_end [\<lparr>seg_start = 7, seg_end = 7, seg_text = ''a''\<rparr>])
       \<le> nearest_boundary 6 (map seg_start [\<lparr>seg_start = 7, seg_end = 7, seg_text = ''a''\<rparr>])
   \<and> snap_to_segment_boundaries 6 7 [\<lparr>seg_start = 7, seg_end = 7, seg_text = ''a''\<rparr>] = (7, 22)"
  using snap_end_after_start [of "[\<lparr>seg_start = 0, seg_end = 5, seg_text = ''a''\<rparr>]" 4 1]
    snap_end_after_start [of "[\<lparr>seg_start = 7, seg_end = 7, seg_text = ''a''\<rparr>]" 6 7]
  by (simp add: snap_to_segment_boundaries_def nearest_boundary_def)

text \<open>
  Claim C10 as stated fails: the transcript has the segments (0, 5) and (5, 20) and the
  requested window is (5.2, 5.4). The nearest segment end (5) is not after the nearest
  segment start (5), the end is forced to 5 + 15 = 20, and 20 is the end of the second
  segment.
\<close>

theorem snap_forced_end_counterexample:
  "nearest_boundary (27 / 5)
      (map seg_end [\<lparr>seg_start = 0, seg_end = 5, seg_text = ''a''\<rparr>,
                    \<lparr>seg_start = 5, seg_end = 20, seg_text = ''b''\<rparr>])
     \<le> nearest_boundary (26 / 5)
          (map seg_start [\<lparr>seg_start = 0, seg_end = 5, seg_text = ''a''\<rparr>,
                          \<lparr>seg_start = 5, seg_end = 20, seg_text = ''b''\<rparr>])
   \<and> snd (snap_to_segment_boundaries (26 / 5) (27 / 5)
            [\<lparr>seg_start = 0, seg_end = 5, seg_text = ''a''\<rparr>,
             \<lparr>seg_start = 5, seg_end = 20, seg_text = ''b''\<rparr>])
     = seg_end \<lparr>seg_start = 5, seg_end = 20, seg_text = ''b''\<rparr>"
  by (simp add: snap_to_segment_boundaries_def nearest_boundary_def)

section \<open>Properties of stage 5\<close>

lemma create_short_cases:
  assumes "load_segments vf = Inr segs"
  shows "\<exists>vf' r. create_short svc vf title s e = (vf', Inr r)
           \<and> load_segments vf' = Inr segs
           \<and> vf' ''shorts_suggestions.json'' = vf ''shorts_suggestions.json''
           \<and> cs_duration r = e - s
           \<and> (cs_success r \<longrightarrow> 3 \<le> e - s \<and> e - s \<le> 26)"
proof -
  have k: "load_segments (vf(''shorts'' \<mapsto> Directory)) = load_segments vf"
    by (simp add: load_segments_def)
  show ?thesis
    unfolding create_short_def Let_def MAX_SHORT_CONTENT_def
      MAX_SHORT_TOTAL_def OUTRO_DURATION_def
    using assms by (simp add: k split: option.split sum.split)
qed

lemma create_short_rejects:
  assumes "load_segments vf = Inr segs" and "e - s < 3 \<or> 26 < e - s"
  shows "\<exists>r. create_short svc vf title s e = (vf, Inr r) \<and> \<not> cs_success r"
  unfolding create_short_def Let_def MAX_SHORT_CONTENT_def
    MAX_SHORT_TOTAL_def OUTRO_DURATION_def
  using assms by (simp split: option.split sum.split)

lemma shorts_loop_ok:
  assumes "load_segments vf = Inr segs'"
  shows "\<exists>vf' shorts'. shorts_loop svc segs i sugs (vf, shorts) = (vf', Inr shorts')
           \<and> load_segments vf' = Inr segs'
           \<and> vf' ''shorts_suggestions.json'' = vf ''shorts_suggestions.json''
           \<and> (\<forall>sh \<in> set shorts'. sh \<in> set shorts \<or> accepted_window segs sugs sh)"
  using assms
proof (induction sugs arbitrary: vf shorts i)
  case Nil
  then show ?case by simp
next
  case (Cons sug sugs)
  obtain s e where w: "window_of segs sug = (s, e)"
    by (cases "window_of segs sug") auto
  from create_short_cases [OF Cons.prems, of svc "short_title i sug" s e]
  obtain vf1 r where c: "create_short svc vf (short_title i sug) s e = (vf1, Inr r)"
    and l1: "load_segments vf1 = Inr segs'"
    and f1: "vf1 ''shorts_suggestions.json'' = vf ''shorts_suggestions.json''"
    and rng: "cs_success r \<longrightarrow> 3 \<le> e - s \<and> e - s \<le> 26"
    by blast
  let ?shorts1 = "if cs_success r
                  then shorts @ [\<lparr>sh_title = short_title i sug, sh_start = s, sh_end = e,
                                  sh_path = cs_output_path r, sh_duration = cs_duration r\<rparr>]
                  else shorts"
  from Cons.IH [OF l1, of "i + 1" ?shorts1]
  obtain vf' shorts' where
    r: "shorts_loop svc segs (i + 1) sugs (vf1, ?shorts1) = (vf', Inr shorts')"
    and l': "load_segments vf' = Inr segs'"
    and f': "vf' ''shorts_suggestions.json'' = vf1 ''shorts_suggestions.json''"
    and m: "\<forall>sh \<in> set shorts'. sh \<in> set ?shorts1 \<or> accepted_window segs sugs sh"
    by blast
  have step: "shorts_loop svc segs i (sug # sugs) (vf, shorts) = (vf', Inr shorts')"
    using w c r by (simp add: Let_def)
  have "\<forall>sh \<in> set shorts'. sh \<in> set shorts \<or> accepted_window segs (sug # sugs) sh"
  proof
    fix sh assume "sh \<in> set shorts'"
    with m have "sh \<in> set ?shorts1 \<or> accepted_window segs sugs sh" by blast
    then show "sh \<in> set shorts \<or> accepted_window segs (sug # sugs) sh"
      using w rng by (auto simp: accepted_window_def split: if_splits)
  qed
  with step l' f' f1 show ?case by simp
qed

lemma window_of_nearest:
  assumes "segments \<noteq> []" and "window_of segments sug = (s, e)"
  shows "s \<in> seg_start ` set segments
       \<and> (\<forall>g \<in> set segments.
             \<bar>s - (case sug_start sug of None \<Rightarrow> 0 | Some v \<Rightarrow> v)\<bar>
               \<le> \<bar>seg_start g - (case sug_start sug of None \<Rightarrow> 0 | Some v \<Rightarrow> v)\<bar>)
       \<and> (\<exists>n \<in> seg_end ` set segments.
             (\<forall>g \<in> set segments.
                \<bar>n - (case sug_end sug of None \<Rightarrow> 30 | Some v \<Rightarrow> v)\<bar>
                  \<le> \<bar>seg_end g - (case sug_end sug of None \<Rightarrow> 30 | Some v \<Rightarrow> v)\<bar>)
             \<and> e = (if n \<le> s then s + 15 else n))"
proof -
  let ?a = "case sug_start sug of None \<Rightarrow> 0 | Some v \<Rightarrow> v"
  let ?b = "case sug_end sug of None \<Rightarrow> 30 | Some v \<Rightarrow> v"
  from assms have w: "snap_to_segment_boundaries ?a ?b segments = (s, e)"
    by (simp add: window_of_def Let_def)
  from assms(1) have ne1: "map seg_start segments \<noteq> []" and ne2: "map seg_end segments \<noteq> []"
    by simp_all
  have s: "s = nearest_boundary ?a (map seg_start segments)"
    using snap_fst [OF assms(1), of ?a ?b] w by simp
  have e: "e = (if nearest_boundary ?b (map seg_end segments) \<le> s then s + 15
                else nearest_boundary ?b (map seg_end segments))"
    using snap_snd [OF assms(1), of ?a ?b] w s by simp
  define n where "n = nearest_boundary ?b (map seg_end segments)"
  from nearest_boundary_minimal [OF ne1, of ?a] s
  have s_ok: "s \<in> seg_start ` set segments"
    "\<forall>g \<in> set segments. \<bar>s - ?a\<bar> \<le> \<bar>seg_start g - ?a\<bar>"
    by auto
  from nearest_boundary_minimal [OF ne2, of ?b]
  have n_ok: "n \<in> seg_end ` set segments"
    "\<forall>g \<in> set segments. \<bar>n - ?b\<bar> \<le> \<bar>seg_end g - ?b\<bar>"
    by (auto simp: n_def)
  from e have "e = (if n \<le> s then s + 15 else n)"
    by (simp add: n_def)
  with s_ok n_ok show ?thesis by blast
qed


lemma suggest_shorts_nonempty:
  assumes "suggest_shorts svc vf n = Inr sugs" and "sugs \<noteq> []"
  shows "\<exists>data. vf ''transcription.json'' = Some (Transcription_json data)
               \<and> tr_segments data \<noteq> []"
  using assms
  by (simp add: suggest_shorts_def split: option.splits entry.splits if_splits)

lemma suggest_shorts_total:
  assumes "vf ''transcription.json'' = Some (Transcription_json data)"
  shows "\<exists>sugs. suggest_shorts svc vf n = Inr sugs"
  using assms by (simp add: suggest_shorts_def split: option.split)

lemma generate_shorts_result:
  assumes tj: "vf ''transcription.json'' = Some (Transcription_json data)"
    and sg: "suggest_shorts svc vf n = Inr sugs"
  shows "\<exists>vf' r. generate_shorts svc vf n = (vf', Inr r) \<and> gs_success r
           \<and> (sugs \<noteq> [] \<longrightarrow> vf' ''shorts_suggestions.json'' = Some (Suggestions_json sugs))
           \<and> (\<forall>sh \<in> set (gs_shorts r). accepted_window (tr_segments data) sugs sh)"
proof (cases "sugs = []")
  case True
  with sg show ?thesis by (simp add: generate_shorts_def)
next
  case False
  let ?vf1 = "vf(''shorts_suggestions.json'' \<mapsto> Suggestions_json sugs)"
  have l: "load_segments ?vf1 = Inr (tr_segments data)"
    using tj by (simp add: load_segments_def)
  from shorts_loop_ok [OF l, of svc "tr_segments data" 0 sugs "[]"]
  obtain vf' shorts' where
    r: "shorts_loop svc (tr_segments data) 0 sugs (?vf1, []) = (vf', Inr shorts')"
    and f: "vf' ''shorts_suggestions.json'' = ?vf1 ''shorts_suggestions.json''"
    and m: "\<forall>sh \<in> set shorts'. sh \<in> set [] \<or> accepted_window (tr_segments data) sugs sh"
    by blast
  have "generate_shorts svc vf n
          = (vf', Inr \<lparr>gs_success = True, gs_error = None, gs_shorts = shorts'\<rparr>)"
    using sg False l r by (simp add: generate_shorts_def Let_def)
  with f m show ?thesis by simp
qed

text \<open>
  Claim C6, as amended. When \<^verbatim>\<open>transcription.json\<close> has segments, the window that stage
  5 passes to \<^verbatim>\<open>create_short\<close> for a suggestion starts at a segment start whose distance
  to the suggested start is minimal; its end is a segment end whose distance to the
  suggested end is minimal, unless that end is not after the new start, in which case it is
  the new start plus 15 seconds. A window whose duration is under 3 or over 26 seconds is
  refused by \<^verbatim>\<open>create_short\<close> without an exception and without touching the directory,
  and \<^verbatim>\<open>generate_shorts\<close> always returns with \<^verbatim>\<open>success = True\<close>; every short it
  returns comes from a suggestion and has a duration within the limits, and the task of
  stage 5 passes a successful value on.
\<close>

theorem stage5_snaps_and_rejects:
  assumes tj: "video_folder ''transcription.json'' = Some (Transcription_json data)"
    and ne: "tr_segments data \<noteq> []"
  shows "(\<forall>s e. window_of (tr_segments data) sug = (s, e) \<longrightarrow>
            s \<in> seg_start ` set (tr_segments data)
          \<and> (\<forall>g \<in> set (tr_segments data).
                \<bar>s - (case sug_start sug of None \<Rightarrow> 0 | Some v \<Rightarrow> v)\<bar>
                  \<le> \<bar>seg_start g - (case sug_start sug of None \<Rightarrow> 0 | Some v \<Rightarrow> v)\<bar>)
          \<and> (\<exists>n \<in> seg_end ` set (tr_segments data).
                (\<forall>g \<in> set (tr_segments data).
                   \<bar>n - (case sug_end sug of None \<Rightarrow> 30 | Some v \<Rightarrow> v)\<bar>
                     \<le> \<bar>seg_end g - (case sug_end sug of None \<Rightarrow> 30 | Some v \<Rightarrow> v)\<bar>)
                \<and> e = (if n \<le> s then s + 15 else n)))
       \<and> (\<forall>s e. e - s < 3 \<or> 26 < e - s \<longrightarrow>
            (\<exists>r. create_short svc video_folder title s e = (video_folder, Inr r)
                  \<and> \<not> cs_success r))
       \<and> (\<exists>sugs vf' r.
            suggest_shorts svc video_folder max_shorts = Inr sugs
          \<and> generate_shorts svc video_folder max_shorts = (vf', Inr r)
          \<and> gs_success r
          \<and> (\<forall>sh \<in> set (gs_shorts r). \<exists>sug \<in> set sugs.
                (sh_start sh, sh_end sh) = window_of (tr_segments data) sug
                \<and> 3 \<le> sh_end sh - sh_start sh \<and> sh_end sh - sh_start sh \<le> 26))
       \<and> snd (task_step5_shorts svc self previous_result
                \<lparr>st_db = db, st_dir = video_folder\<rparr>)
           = Inr \<lparr>cont_success = True, cont_step = 5,
                  cont_video_folder = cont_video_folder previous_result\<rparr>"
proof (intro conjI allI impI)
  fix s e assume "window_of (tr_segments data) sug = (s, e)"
  from window_of_nearest [OF ne this]
  show "s \<in> seg_start ` set (tr_segments data)"
    and "\<forall>g \<in> set (tr_segments data).
           \<bar>s - (case sug_start sug of None \<Rightarrow> 0 | Some v \<Rightarrow> v)\<bar>
             \<le> \<bar>seg_start g - (case sug_start sug of None \<Rightarrow> 0 | Some v \<Rightarrow> v)\<bar>"
    and "\<exists>n \<in> seg_end ` set (tr_segments data).
           (\<forall>g \<in> set (tr_segments data).
              \<bar>n - (case sug_end sug of None \<Rightarrow> 30 | Some v \<Rightarrow> v)\<bar>
                \<le> \<bar>seg_end g - (case sug_end sug of None \<Rightarrow> 30 | Some v \<Rightarrow> v)\<bar>)
           \<and> e = (if n \<le> s then s + 15 else n)"
    by blast+
next
  fix s e :: real assume "e - s < 3 \<or> 26 < e - s"
  moreover have "load_segments video_folder = Inr (tr_segments data)"
    using tj by (simp add: load_segments_def)
  ultimately show "\<exists>r. create_short svc video_folder title s e = (video_folder, Inr r)
                       \<and> \<not> cs_success r"
    using create_short_rejects by blast
next
  from suggest_shorts_total [where vf = video_folder and data = data, OF tj]
  obtain sugs where sg: "suggest_shorts svc video_folder max_shorts = Inr sugs"
    by blast
  from generate_shorts_result [where vf = video_folder and data = data, OF tj sg] sg
  show "\<exists>sugs vf' r.
          suggest_shorts svc video_folder max_shorts = Inr sugs
        \<and> generate_shorts svc video_folder max_shorts = (vf', Inr r)
        \<and> gs_success r
        \<and> (\<forall>sh \<in> set (gs_shorts r). \<exists>sug \<in> set sugs.
              (sh_start sh, sh_end sh) = window_of (tr_segments data) sug
              \<and> 3 \<le> sh_end sh - sh_start sh \<and> sh_end sh - sh_start sh \<le> 26)"
    unfolding accepted_window_def by blast
next
  from suggest_shorts_total [where vf = video_folder and data = data, OF tj]
  obtain sugs where sg: "suggest_shorts svc video_folder 3 = Inr sugs"
    by blast
  from generate_shorts_result [where vf = video_folder and data = data, OF tj sg]
  obtain vf' r where "generate_shorts svc video_folder 3 = (vf', Inr r)" and "gs_success r"
    by blast
  then show "snd (task_step5_shorts svc self previous_result
                    \<lparr>st_db = db, st_dir = video_folder\<rparr>)
               = Inr \<lparr>cont_success = True, cont_step = 5,
                      cont_video_folder = cont_video_folder previous_result\<rparr>"
    by (simp add: task_step5_shorts_def stage_outcome_def Let_def)
qed

text \<open>
  The theorem at the example: the suggested window (7.3, 45.8) becomes (7.12, 31.05), the
  window (0, 100) is refused, and the stage returns one short.
\<close>

theorem stage5_snaps_and_rejects_witness:
  "demo_folder ''transcription.json'' = Some (Transcription_json demo_transcript)
   \<and> tr_segments demo_transcript \<noteq> []
   \<and> window_of (tr_segments demo_transcript) demo_suggestion = (178 / 25, 621 / 20)
   \<and> (100 - 0 < (3::real) \<or> (26::real) < 100 - 0)
   \<and> (\<exists>r. create_short demo_services demo_folder ''t'' 0 100 = (demo_folder, Inr r)
            \<and> \<not> cs_success r)
   \<and> (\<exists>vf' r. generate_shorts demo_services demo_folder 3 = (vf', Inr r) \<and> gs_success r
            \<and> length (gs_shorts r) = 1)"
  using stage5_snaps_and_rejects [of demo_folder demo_transcript demo_suggestion
      demo_services "''t''" 3 5 demo_continuation "st_db demo_state"]
  by (simp add: demo_folder_def demo_transcript_def demo_suggestion_def demo_services_def
      generate_shorts_def suggest_shorts_def load_segments_def create_short_def
      window_of_def snap_to_segment_boundaries_def nearest_boundary_def short_title_def
      lower_char_def MAX_SHORT_CONTENT_def MAX_SHORT_TOTAL_def OUTRO_DURATION_def Let_def)

text \<open>
  Claim C6 as stated fails: with the segments (0, 5) and (5, 10) and the suggested window
  (5.2, 5.4), the window becomes (5, 20). Its end is not the end of any segment, so it is
  not the segment end nearest to 5.4; and its duration, 15 seconds, is accepted.
\<close>

theorem stage5_forced_end_counterexample:
  "window_of two_segments
     \<lparr>sug_title = None, sug_start = Some (26 / 5), sug_end = Some (27 / 5)\<rparr> = (5, 20)
   \<and> 20 \<notin> seg_end ` set two_segments
   \<and> (3::real) \<le> 20 - 5 \<and> (20::real) - 5 \<le> 26"
  by (simp add: two_segments_def window_of_def snap_to_segment_boundaries_def
      nearest_boundary_def)

text \<open>
  Claim C5, as amended. Every short in the list that \<^verbatim>\<open>generate_shorts\<close> returns has a
  duration within 3 and 26 seconds, its start is the start of a segment of
  \<^verbatim>\<open>transcription.json\<close>, and its end is the end of a segment or the start plus 15
  seconds. The file \<^verbatim>\<open>shorts_suggestions.json\<close> holds the suggestions of the language
  model as they were received, before snapping and before the duration check.
\<close>

theorem shorts_windows_sound:
  assumes g: "generate_shorts svc video_folder max_shorts = (vf', Inr r)"
    and sh: "sh \<in> set (gs_shorts r)"
  shows "3 \<le> sh_end sh - sh_start sh \<and> sh_end sh - sh_start sh \<le> 26
       \<and> (\<exists>data. video_folder ''transcription.json'' = Some (Transcription_json data)
            \<and> sh_start sh \<in> seg_start ` set (tr_segments data)
            \<and> (sh_end sh \<in> seg_end ` set (tr_segments data)
                 \<or> sh_end sh = sh_start sh + 15))
       \<and> (\<exists>sugs. suggest_shorts svc video_folder max_shorts = Inr sugs
            \<and> vf' ''shorts_suggestions.json'' = Some (Suggestions_json sugs))"
proof -
  from g obtain sugs where sg: "suggest_shorts svc video_folder max_shorts = Inr sugs"
    by (cases "suggest_shorts svc video_folder max_shorts")
       (simp_all add: generate_shorts_def)
  have ne: "sugs \<noteq> []"
  proof
    assume "sugs = []"
    with g sg have "gs_shorts r = []"
      by (auto simp: generate_shorts_def)
    with sh show False by simp
  qed
  from suggest_shorts_nonempty [OF sg ne]
  obtain data where tj: "video_folder ''transcription.json'' = Some (Transcription_json data)"
    and sne: "tr_segments data \<noteq> []"
    by blast
  from generate_shorts_result [where vf = video_folder and data = data, OF tj sg] g ne sh
  have f: "vf' ''shorts_suggestions.json'' = Some (Suggestions_json sugs)"
    and a: "accepted_window (tr_segments data) sugs sh"
    by auto
  from a obtain sug where w: "window_of (tr_segments data) sug = (sh_start sh, sh_end sh)"
    and rng: "3 \<le> sh_end sh - sh_start sh" "sh_end sh - sh_start sh \<le> 26"
    unfolding accepted_window_def by force
  from window_of_nearest [OF sne w]
  have "sh_start sh \<in> seg_start ` set (tr_segments data)"
    and "sh_end sh \<in> seg_end ` set (tr_segments data) \<or> sh_end sh = sh_start sh + 15"
    by (auto split: if_splits)
  with rng tj sg f show ?thesis by blast
qed

text \<open>The theorem at the example: the one returned short has the window (7.12, 31.05).\<close>

theorem shorts_windows_sound_witness:
  "generate_shorts demo_services demo_folder 3
     = (fst (generate_shorts demo_services demo_folder 3),
        Inr \<lparr>gs_success = True, gs_error = None,
             gs_shorts = [\<lparr>sh_title = ''demo #shorts'', sh_start = 178 / 25,
                            sh_end = 621 / 20, sh_path = Some ''short_demo.mp4'',
                            sh_duration = 2393 / 100\<rparr>]\<rparr>)
   \<and> (3::real) \<le> 621 / 20 - 178 / 25 \<and> (621::real) / 20 - 178 / 25 \<le> 26
   \<and> fst (generate_shorts demo_services demo_folder 3) ''shorts_suggestions.json''
       = Some (Suggestions_json [demo_suggestion])"
  using shorts_windows_sound [of demo_services demo_folder 3
      "fst (generate_shorts demo_services demo_folder 3)"
      "\<lparr>gs_success = True, gs_error = None,
        gs_shorts = [\<lparr>sh_title = ''demo #shorts'', sh_start = 178 / 25,
                       sh_end = 621 / 20, sh_path = Some ''short_demo.mp4'',
                       sh_duration = 2393 / 100\<rparr>]\<rparr>"
      "\<lparr>sh_title = ''demo #shorts'', sh_start = 178 / 25,
        sh_end = 621 / 20, sh_path = Some ''short_demo.mp4'',
        sh_duration = 2393 / 100\<rparr>"]
  by (simp add: demo_folder_def demo_transcript_def demo_suggestion_def demo_services_def
      generate_shorts_def suggest_shorts_def load_segments_def create_short_def
      window_of_def snap_to_segment_boundaries_def nearest_boundary_def short_title_def
      lower_char_def MAX_SHORT_CONTENT_def MAX_SHORT_TOTAL_def OUTRO_DURATION_def Let_def)

text \<open>
  Claim C5 as stated fails: at the example, \<^verbatim>\<open>shorts_suggestions.json\<close> records the
  suggested window (7.3, 45.8); its duration is 38.5 seconds and neither endpoint is a
  boundary of a segment.
\<close>

theorem suggestions_file_counterexample:
  "fst (generate_shorts demo_services demo_folder 3) ''shorts_suggestions.json''
     = Some (Suggestions_json [demo_suggestion])
   \<and> \<not> recorded_window_ok (tr_segments demo_transcript) demo_suggestion"
  by (simp add: demo_folder_def demo_transcript_def demo_suggestion_def demo_services_def
      generate_shorts_def suggest_shorts_def load_segments_def create_short_def
      window_of_def snap_to_segment_boundaries_def nearest_boundary_def short_title_def
      lower_char_def MAX_SHORT_CONTENT_def MAX_SHORT_TOTAL_def OUTRO_DURATION_def Let_def
      recorded_window_ok_def)

section \<open>Properties of stage 7\<close>

text \<open>
  Claim C7. When \<^verbatim>\<open>nosilence.mp4\<close> is a media file and \<^verbatim>\<open>broll_clips.json\<close> is absent
  or holds the empty list, \<^verbatim>\<open>integrate_broll\<close> returns with \<^verbatim>\<open>success = True\<close>, the
  directory afterwards is the one before with \<^verbatim>\<open>illustrated.mp4\<close> holding the same
  content as \<^verbatim>\<open>nosilence.mp4\<close> (which is left as it was), the probe reports the same
  duration for both, and the task of stage 7 passes a successful value on.
\<close>

theorem integrate_broll_without_clips:
  assumes "video_folder ''nosilence.mp4'' = Some (Media d b)"
    and "video_folder ''broll_clips.json'' = None
         \<or> video_folder ''broll_clips.json'' = Some (Clips_json [])"
  shows "(\<exists>r. integrate_broll eng video_folder broll_duration
               = (video_folder(''illustrated.mp4'' \<mapsto> Media d b), Inr r)
             \<and> ib_success r \<and> ib_error r = None \<and> ib_clips_used r = 0)
       \<and> fst (integrate_broll eng video_folder broll_duration) ''illustrated.mp4''
           = video_folder ''nosilence.mp4''
       \<and> fst (integrate_broll eng video_folder broll_duration) ''nosilence.mp4''
           = video_folder ''nosilence.mp4''
       \<and> map_option get_duration
            (fst (integrate_broll eng video_folder broll_duration) ''illustrated.mp4'')
           = map_option get_duration (video_folder ''nosilence.mp4'')
       \<and> snd (task_step7_integrate_broll eng self previous_result
                \<lparr>st_db = db, st_dir = video_folder\<rparr>)
           = Inr \<lparr>cont_success = True, cont_step = 7,
                  cont_video_folder = cont_video_folder previous_result\<rparr>"
  using assms
  by (auto simp: integrate_broll_def task_step7_integrate_broll_def stage_outcome_def
      Let_def)

text \<open>
  The theorem at a directory without \<^verbatim>\<open>broll_clips.json\<close> and at one where the file
  holds the empty list.
\<close>

theorem integrate_broll_without_clips_witness:
  "((\<lambda>n. None)(''nosilence.mp4'' \<mapsto> Media 28 4)) ''nosilence.mp4'' = Some (Media 28 4)
   \<and> ((\<lambda>n. None)(''nosilence.mp4'' \<mapsto> Media 28 4)) ''broll_clips.json'' = None
   \<and> fst (integrate_broll demo_engine7 ((\<lambda>n. None)(''nosilence.mp4'' \<mapsto> Media 28 4)) 3)
        ''illustrated.mp4'' = Some (Media 28 4)
   \<and> ((\<lambda>n. None)(''nosilence.mp4'' \<mapsto> Media 28 4, ''broll_clips.json'' \<mapsto> Clips_json []))
        ''broll_clips.json'' = Some (Clips_json [])
   \<and> fst (integrate_broll demo_engine7
            ((\<lambda>n. None)(''nosilence.mp4'' \<mapsto> Media 28 4,
                         ''broll_clips.json'' \<mapsto> Clips_json [])) 3)
        ''illustrated.mp4'' = Some (Media 28 4)"
  using integrate_broll_without_clips
      [of "(\<lambda>n. None)(''nosilence.mp4'' \<mapsto> Media 28 4)" 28 4 demo_engine7 3]
    integrate_broll_without_clips
      [of "(\<lambda>n. None)(''nosilence.mp4'' \<mapsto> Media 28 4,
                        ''broll_clips.json'' \<mapsto> Clips_json [])" 28 4 demo_engine7 3]
  by simp

section \<open>Properties of the registry and of the controller\<close>

lemma path_name_demo: "path_name ''output/video_1'' = ''video_1''"
  by (simp add: path_name_def)

lemma update_one_map_of:
  assumes "distinct (map fst ps)" and "map_of ps i = Some p"
  shows "map_of (update_one i f ps) i = Some (f p)"
  using assms by (induction ps) (auto split: if_splits)

lemma update_one_map_of_other:
  "j \<noteq> i \<Longrightarrow> map_of (update_one i f ps) j = map_of ps j"
  by (induction ps) auto

lemma update_one_fst: "map fst (update_one i f ps) = map fst ps"
  by (induction ps) auto

lemma find_in_set: "find P ps = Some x \<Longrightarrow> x \<in> set ps"
  by (induction ps) (auto split: if_splits)

lemma get_project_update:
  assumes "db_connected db" and "distinct (map fst (db_projects db))"
    and "get_project db i = Some p"
  shows "get_project (update_project db i f) i = Some (f p)"
  using assms
  by (simp add: get_project_def update_project_def is_connected_def update_one_map_of)

lemma by_folder_get_project:
  assumes "distinct (map fst (db_projects db))"
    and "get_project_by_folder db folder_name = Some (i, p)"
  shows "db_connected db \<and> get_project db i = Some p"
  using assms
  by (auto simp: get_project_by_folder_def get_project_def is_connected_def
      split: if_splits dest: find_in_set)

lemma find_update_one:
  assumes "distinct (map fst ps)"
    and "find (\<lambda>(i, p). p_folder_name p = n) ps = Some (i, p)"
    and "\<And>q. p_folder_name (f q) = p_folder_name q"
  shows "find (\<lambda>(i, p). p_folder_name p = n) (update_one i f ps) = Some (i, f p)"
  using assms(1,2)
proof (induction ps)
  case Nil
  then show ?case by simp
next
  case (Cons a ps)
  obtain j q where a: "a = (j, q)" by (cases a)
  show ?case
  proof (cases "p_folder_name q = n")
    case True
    with Cons.prems a show ?thesis by (simp add: assms(3))
  next
    case False
    with Cons.prems a have t: "find (\<lambda>(i, p). p_folder_name p = n) ps = Some (i, p)"
      by simp
    from find_in_set [OF t] Cons.prems(1) a have "j \<noteq> i"
      by (auto simp: rev_image_eqI)
    with Cons.IH t Cons.prems(1) False a show ?thesis by (simp add: assms(3))
  qed
qed

lemma progress_formula:
  assumes "0 \<le> k"
  shows "py_int ((real_of_int k / real_of_int TOTAL_STEPS) * 100) = (100 * k) div 12"
proof -
  have "(real_of_int k / real_of_int 12) * 100 = real_of_int (100 * k) / real_of_int 12"
    by simp
  moreover have "\<lfloor>real_of_int (100 * k) / real_of_int 12\<rfloor> = (100 * k) div 12"
    by (rule floor_divide_of_int_eq)
  moreover have "0 \<le> (real_of_int k / real_of_int 12) * 100"
    using assms by simp
  ultimately show ?thesis
    by (simp add: py_int_def TOTAL_STEPS_def)
qed


lemma update_data_folder [simp]: "p_folder_name (update_data k s e q) = p_folder_name q"
  by (simp add: update_data_def)

lemma update_project_status_found:
  assumes d: "distinct (map fst (db_projects db))"
    and f: "get_project_by_folder db (path_name vf) = Some (i, p)"
  shows "update_project_status db vf k s e = update_project db i (update_data k s e)"
    and "get_project (update_project_status db vf k s e) i = Some (update_data k s e p)"
    and "get_project_by_folder (update_project_status db vf k s e) (path_name vf)
           = Some (i, update_data k s e p)"
    and "distinct (map fst (db_projects (update_project_status db vf k s e)))"
proof -
  from by_folder_get_project [OF d f]
  have c: "db_connected db" and g: "get_project db i = Some p"
    by simp_all
  show u: "update_project_status db vf k s e = update_project db i (update_data k s e)"
    using f by (simp add: update_project_status_def)
  show "get_project (update_project_status db vf k s e) i = Some (update_data k s e p)"
    unfolding u using get_project_update [OF c d g] .
  show "get_project_by_folder (update_project_status db vf k s e) (path_name vf)
           = Some (i, update_data k s e p)"
    unfolding u
    using c f find_update_one [OF d, of "path_name vf" i p "update_data k s e"]
    by (simp add: get_project_by_folder_def update_project_def is_connected_def
        split: if_splits)
  show "distinct (map fst (db_projects (update_project_status db vf k s e)))"
    unfolding u using d by (simp add: update_project_def update_one_fst)
qed

lemma get_project_update2:
  assumes "db_connected db" and "distinct (map fst (db_projects db))"
    and "get_project db i = Some p"
  shows "get_project (update_project (update_project db i f) i g) i = Some (g (f p))"
  using assms
  by (simp add: get_project_def update_project_def is_connected_def update_one_map_of
      update_one_fst)

text \<open>
  Claim C8. For a reachable registry, a registered project and a reachable broker: when the
  status is \<^verbatim>\<open>ready_to_upload\<close>, \<^verbatim>\<open>completed\<close> or \<^verbatim>\<open>failed\<close>, the upload
  endpoint submits one task, of stage 11 alone, and returns its handle; for every other
  status it answers with the error 400 and leaves the registry, the broker and the
  directories as they were, so nothing is submitted.
\<close>

theorem upload_gate:
  assumes c: "is_connected (app_db a)"
    and g: "get_project (app_db a) project_id = Some project"
    and b: "br_available (app_broker a)"
  shows "(p_status project \<in> {''ready_to_upload'', ''completed'', ''failed''} \<longrightarrow>
            (\<exists>a'. start_youtube_upload a project_id = (a', Inr (br_next_id (app_broker a)))
               \<and> br_queue (app_broker a')
                   = br_queue (app_broker a)
                     @ [(br_next_id (app_broker a),
                         Stages [11] (''output/'' @ p_folder_name project))]))
       \<and> (p_status project \<notin> {''ready_to_upload'', ''completed'', ''failed''} \<longrightarrow>
            start_youtube_upload a project_id = (a, Inl (HTTPException 400)))"
  using assms
  by (simp add: start_youtube_upload_def apply_async_def Let_def)

text \<open>
  The theorem at the stopped example project (refused) and at the same project with the
  status \<^verbatim>\<open>ready_to_upload\<close> (stage 11 submitted under the fresh handle 9).
\<close>

theorem upload_gate_witness:
  "is_connected (app_db demo_app)
   \<and> get_project (app_db demo_app) ''p1'' = Some demo_project
   \<and> br_available (app_broker demo_app)
   \<and> p_status demo_project \<notin> {''ready_to_upload'', ''completed'', ''failed''}
   \<and> start_youtube_upload demo_app ''p1'' = (demo_app, Inl (HTTPException 400))
   \<and> get_project (app_db (demo_app\<lparr>app_db := \<lparr>db_connected = True,
          db_projects = [(''p1'', demo_project\<lparr>p_status := ''ready_to_upload''\<rparr>)]\<rparr>\<rparr>)) ''p1''
       = Some (demo_project\<lparr>p_status := ''ready_to_upload''\<rparr>)
   \<and> p_status (demo_project\<lparr>p_status := ''ready_to_upload''\<rparr>)
        \<in> {''ready_to_upload'', ''completed'', ''failed''}
   \<and> br_queue (app_broker (fst (start_youtube_upload
         (demo_app\<lparr>app_db := \<lparr>db_connected = True,
            db_projects = [(''p1'', demo_project\<lparr>p_status := ''ready_to_upload''\<rparr>)]\<rparr>\<rparr>) ''p1'')))
       = [(9, Stages [11] ''output/video_1'')]"
  using upload_gate [of demo_app "''p1''" demo_project]
    upload_gate [of "demo_app\<lparr>app_db := \<lparr>db_connected = True,
            db_projects = [(''p1'', demo_project\<lparr>p_status := ''ready_to_upload''\<rparr>)]\<rparr>\<rparr>"
         "''p1''" "demo_project\<lparr>p_status := ''ready_to_upload''\<rparr>"]
  by (auto simp: demo_app_def demo_project_def is_connected_def get_project_def)

text \<open>
  Claim C9. For a project found in the registry by its folder name, a stage \<open>k \<ge> 0\<close>
  that marks itself processing leaves the status \<^verbatim>\<open>processing\<close>, the current step
  \<open>k\<close> and the progress \<open>\<lfloor>(k / TOTAL_STEPS) \<times> 100\<rfloor>\<close>, which is \<open>100 k div 12\<close>; and
  when \<^verbatim>\<open>prepare_schedule\<close> returns, the task of stage 10 leaves the status
  \<^verbatim>\<open>ready_to_upload\<close> and the progress 90.
\<close>

theorem progress_of_processing_stage:
  assumes d: "distinct (map fst (db_projects db))"
    and f: "get_project_by_folder db (path_name video_folder) = Some (project_id, project)"
    and k: "0 \<le> k"
  shows "(\<exists>p. get_project (update_project_status db video_folder k ''processing'' None)
                project_id = Some p
             \<and> p_status p = ''processing'' \<and> p_current_step p = Some k
             \<and> p_progress p = \<lfloor>(real_of_int k / real_of_int TOTAL_STEPS) * 100\<rfloor>
             \<and> p_progress p = (100 * k) div 12)
       \<and> (prepare_schedule svc dir = (dir', Inr result) \<longrightarrow>
            (\<exists>st' p. task_step10_schedule svc self
                     \<lparr>cont_success = True, cont_step = 9, cont_video_folder = video_folder\<rparr>
                     \<lparr>st_db = db, st_dir = dir\<rparr>
                   = (st', Inr \<lparr>cont_success = True, cont_step = 10,
                               cont_video_folder = video_folder\<rparr>)
                \<and> get_project (st_db st') project_id = Some p
                \<and> p_status p = ''ready_to_upload'' \<and> p_current_step p = Some 10
                \<and> p_progress p = 90))"
proof (intro conjI impI)
  from by_folder_get_project [OF d f]
  have c: "db_connected db" and g: "get_project db project_id = Some project"
    by simp_all
  have pf: "py_int ((real_of_int k / real_of_int TOTAL_STEPS) * 100)
              = \<lfloor>(real_of_int k / real_of_int TOTAL_STEPS) * 100\<rfloor>"
    using k by (simp add: py_int_def TOTAL_STEPS_def)
  show "\<exists>p. get_project (update_project_status db video_folder k ''processing'' None)
                project_id = Some p
             \<and> p_status p = ''processing'' \<and> p_current_step p = Some k
             \<and> p_progress p = \<lfloor>(real_of_int k / real_of_int TOTAL_STEPS) * 100\<rfloor>
             \<and> p_progress p = (100 * k) div 12"
    using update_project_status_found(2) [OF d f, of k "''processing''" None] pf
      progress_formula [OF k]
    by (simp add: update_data_def)
next
  assume ps: "prepare_schedule svc dir = (dir', Inr result)"
  let ?db1 = "update_project_status db video_folder 10 ''processing'' None"
  from update_project_status_found [OF d f, of 10 "''processing''" None]
  have g1: "get_project ?db1 project_id = Some (update_data 10 ''processing'' None project)"
    and fnd: "get_project_by_folder ?db1 (path_name video_folder)
                = Some (project_id, update_data 10 ''processing'' None project)"
    and d1: "distinct (map fst (db_projects ?db1))"
    by simp_all
  from by_folder_get_project [OF d1 fnd] have c1: "db_connected ?db1"
    by simp
  show "\<exists>st' p. task_step10_schedule svc self
                   \<lparr>cont_success = True, cont_step = 9, cont_video_folder = video_folder\<rparr>
                   \<lparr>st_db = db, st_dir = dir\<rparr>
                 = (st', Inr \<lparr>cont_success = True, cont_step = 10,
                             cont_video_folder = video_folder\<rparr>)
              \<and> get_project (st_db st') project_id = Some p
              \<and> p_status p = ''ready_to_upload'' \<and> p_current_step p = Some 10
              \<and> p_progress p = 90"
    using ps fnd get_project_update [OF c1 d1 g1]
    by (simp add: task_step10_schedule_def Let_def)
qed

text \<open>
  The theorem at the example project: stage 7 marks 58 percent, and stage 10 ends at 90.
\<close>

theorem progress_of_processing_stage_witness:
  "distinct (map fst (db_projects (st_db demo_state)))
   \<and> get_project_by_folder (st_db demo_state) (path_name ''output/video_1'')
       = Some (''p1'', demo_project)
   \<and> (0::int) \<le> 7
   \<and> map_option p_progress
        (get_project (update_project_status (st_db demo_state) ''output/video_1'' 7
                        ''processing'' None) ''p1'') = Some 58
   \<and> prepare_schedule demo_services10 (st_dir demo_state)
       = ((st_dir demo_state)(''schedule.json'' \<mapsto> Other_file), Inr ''schedule'')
   \<and> map_option p_progress
        (get_project (st_db (fst (task_step10_schedule demo_services10 5
             \<lparr>cont_success = True, cont_step = 9, cont_video_folder = ''output/video_1''\<rparr>
             \<lparr>st_db = st_db demo_state, st_dir = st_dir demo_state\<rparr>))) ''p1'') = Some 90"
proof -
  have a: "distinct (map fst (db_projects (st_db demo_state)))"
    by (simp add: demo_state_def)
  have b: "get_project_by_folder (st_db demo_state) (path_name ''output/video_1'')
             = Some (''p1'', demo_project)"
    by (simp add: demo_state_def get_project_by_folder_def is_connected_def path_name_demo
        demo_project_def)
  have c: "(0::int) \<le> 7"
    by simp
  have p: "prepare_schedule demo_services10 (st_dir demo_state)
             = ((st_dir demo_state)(''schedule.json'' \<mapsto> Other_file), Inr ''schedule'')"
    by (simp add: demo_services10_def)
  from progress_of_processing_stage [OF a b c, of demo_services10 "st_dir demo_state"
      "(st_dir demo_state)(''schedule.json'' \<mapsto> Other_file)" "''schedule''" 5] a b p
  show ?thesis by fastforce
qed

lemma upto_1_12: "[1..12] = [1, 2, 3, 4, 5, 6, 7, 8, 9, 10, 11, 12 :: int]"
  by code_simp

text \<open>
  Claim C2, evaluated at the reboot of the example project. The job that
  \<^verbatim>\<open>reboot_project\<close> submits is \<^verbatim>\<open>process_partial_pipeline\<close> with the steps 1 to 12; a
  worker running it submits the chain of the stages 1 to 11, publication included, whereas
  \<^verbatim>\<open>process_full_pipeline\<close> submits the chain of the stages 1 to 10.
\<close>

theorem reboot_chain_has_stage_11:
  "br_queue (app_broker (fst (reboot_project (\<lambda>name. False) demo_app ''p1'')))
     = [(9, Partial_pipeline ''output/video_1'' 1 12)]
   \<and> run_job \<lparr>br_available = True, br_next_id = 10,
               br_queue = [], br_revoked = [8]\<rparr>
        (Partial_pipeline ''output/video_1'' 1 12)
     = Inr (\<lparr>br_available = True, br_next_id = 11,
              br_queue = [(10, Stages [1, 2, 3, 4, 5, 6, 7, 8, 9, 10, 11] ''output/video_1'')],
              br_revoked = [8]\<rparr>, Some 10)
   \<and> process_full_pipeline \<lparr>br_available = True, br_next_id = 10,
               br_queue = [], br_revoked = [8]\<rparr> ''output/video_1''
     = Inr (\<lparr>br_available = True, br_next_id = 11,
              br_queue = [(10, Stages [1, 2, 3, 4, 5, 6, 7, 8, 9, 10] ''output/video_1'')],
              br_revoked = [8]\<rparr>, 10)"
  by (simp add: reboot_project_def reboot_revoke_def reboot_clean_def reboot_reset_def
      reboot_relaunch_def demo_app_def demo_project_def is_connected_def get_project_def
      revoke_def apply_async_def update_project_def run_job_def process_partial_pipeline_def
      process_full_pipeline_def Let_def upto_1_12)

section \<open>Properties of the worker tasks\<close>







section \<open>Properties of the reboot\<close>

text \<open>
  Claim C4, as amended. For a reachable registry and broker and a registered project,
  \<^verbatim>\<open>reboot_project\<close> revokes the recorded handle (when there is one); removes from the
  project directory every entry except \<^verbatim>\<open>config.json\<close>, \<^verbatim>\<open>screen.mp4\<close> and
  \<^verbatim>\<open>webcam.mp4\<close>, which keep their content (an entry whose removal raises stays too);
  resets the project to the status \<^verbatim>\<open>created\<close> with no current step, no step name, the
  progress 0, no handle and no steps; and then submits one pipeline task that starts at
  stage 1, whose fresh handle is recorded in the project, the status becoming
  \<^verbatim>\<open>processing\<close>. Where the submitted pipeline ends is left out here.
\<close>

theorem reboot_effects:
  assumes c: "is_connected (app_db a)"
    and d: "distinct (map fst (db_projects (app_db a)))"
    and g: "get_project (app_db a) project_id = Some project"
    and b: "br_available (app_broker a)"
  shows "\<exists>a' resp.
           reboot_project undeletable a project_id = (a', Inr resp)
         \<and> (\<forall>h. p_celery_task_id project = Some h \<longrightarrow>
                h \<in> set (br_revoked (app_broker a')) \<and> rb_task_revoked resp)
         \<and> (\<forall>dir. app_output a (p_folder_name project) = Some dir \<longrightarrow>
                (\<exists>dir'. app_output a' (p_folder_name project) = Some dir'
                   \<and> (\<forall>name. dir' name =
                         (if name \<in> {''config.json'', ''screen.mp4'', ''webcam.mp4''}
                               \<or> undeletable name
                          then dir name else None))))
         \<and> (\<exists>p. get_project (app_db (reboot_reset a project_id)) project_id = Some p
                \<and> p_status p = ''created'' \<and> p_current_step p = None
                \<and> p_step_name p = None \<and> p_progress p = 0
                \<and> p_steps p = Map.empty \<and> p_celery_task_id p = None)
         \<and> (\<exists>p. get_project (app_db a') project_id = Some p
                \<and> p_status p = ''processing'' \<and> p_current_step p = None
                \<and> p_step_name p = None \<and> p_progress p = 0
                \<and> p_steps p = Map.empty
                \<and> p_celery_task_id p = Some (rb_new_task_id resp))
         \<and> rb_new_task_id resp = br_next_id (app_broker a)
         \<and> (\<exists>end_step.
               br_queue (app_broker a')
                 = br_queue (app_broker a)
                   @ [(rb_new_task_id resp,
                       Partial_pipeline (''output/'' @ p_folder_name project) 1 end_step)])"
proof -
  have c': "db_connected (app_db a)"
    using c by (simp add: is_connected_def)
  have r1: "get_project (app_db (reboot_reset a project_id)) project_id
        = Some (project\<lparr>p_status := ''created'', p_current_step := None, p_step_name := None,
                p_progress := 0, p_celery_task_id := None, p_steps := Map.empty\<rparr>)"
    using get_project_update [OF c' d g] by (simp add: reboot_reset_def)
  show ?thesis
    using c g b r1 get_project_update2 [OF c' d g]
    by (cases "p_celery_task_id project"; cases "app_output a (p_folder_name project)")
       (simp_all add: reboot_project_def reboot_revoke_def reboot_clean_def reboot_reset_def
          reboot_relaunch_def revoke_def apply_async_def files_to_keep_def Let_def)
qed

text \<open>
  The theorem at the example application, where every removal succeeds: the handle 8 is
  revoked, \<^verbatim>\<open>original.mp4\<close> and \<^verbatim>\<open>shorts\<close> are gone, \<^verbatim>\<open>screen.mp4\<close> is kept, and
  the project records the new handle 9.
\<close>

theorem reboot_effects_witness:
  "is_connected (app_db demo_app)
   \<and> distinct (map fst (db_projects (app_db demo_app)))
   \<and> get_project (app_db demo_app) ''p1'' = Some demo_project
   \<and> br_available (app_broker demo_app)
   \<and> p_celery_task_id demo_project = Some 8
   \<and> 8 \<in> set (br_revoked (app_broker (fst (reboot_project (\<lambda>name. False) demo_app ''p1''))))
   \<and> (\<exists>dir. app_output demo_app (p_folder_name demo_project) = Some dir)
   \<and> (\<exists>dir'. app_output (fst (reboot_project (\<lambda>name. False) demo_app ''p1'')) ''video_1''
                 = Some dir'
            \<and> dir' ''original.mp4'' = None \<and> dir' ''shorts'' = None
            \<and> dir' ''screen.mp4'' = Some (Media 40 1))
   \<and> map_option p_celery_task_id
        (get_project (app_db (fst (reboot_project (\<lambda>name. False) demo_app ''p1''))) ''p1'')
       = Some (Some 9)"
  using reboot_effects [of demo_app "''p1''" demo_project "\<lambda>name. False"]
  by (simp add: reboot_project_def reboot_revoke_def reboot_clean_def reboot_reset_def
      reboot_relaunch_def demo_app_def demo_project_def is_connected_def get_project_def
      revoke_def apply_async_def update_project_def files_to_keep_def Let_def)

text \<open>
  Claim C4 as stated fails at the example: the current step was 4, and after the reset as
  well as after the whole reboot it is \<^verbatim>\<open>None\<close>, not 0.
\<close>

theorem reboot_current_step_counterexample:
  "map_option p_current_step (get_project (app_db demo_app) ''p1'') = Some (Some 4)
   \<and> map_option p_current_step
        (get_project (app_db (reboot_reset demo_app ''p1'')) ''p1'') = Some None
   \<and> map_option p_current_step
        (get_project (app_db (fst (reboot_project (\<lambda>name. False) demo_app ''p1''))) ''p1'')
       = Some None
   \<and> Some None \<noteq> Some (Some (0::int))"
  by (simp add: reboot_project_def reboot_revoke_def reboot_clean_def reboot_reset_def
      reboot_relaunch_def demo_app_def demo_project_def is_connected_def get_project_def
      revoke_def apply_async_def update_project_def files_to_keep_def Let_def)


section \<open>Properties of stage 2\<close>




























end
